theory Spec2Isabelle
  imports Main "HOL-Library.Word" "HOL-Library.AList"
begin

unbundle bit_operations_syntax

section \<open>JavaScript values used by the connector\<close>

text \<open>
  A \<open>Buffer\<close> is a list of bytes. A JavaScript string is a list of UTF-16 code units.
  The only numbers the Receiver computes with are integers and \<open>NaN\<close>; reading a
  buffer past its end gives \<open>undefined\<close>, which every test and operation of the
  Receiver (addition, shift, bitwise and, comparison with a number) treats exactly as it
  treats \<open>NaN\<close>, so the two are identified.
\<close>

type_synonym byte = "8 word"
type_synonym buffer = "byte list"
type_synonym jsstring = "nat list"

datatype jsnum = Num int | NaN

text \<open>A string literal of the source, as code units.\<close>

definition lit :: "string \<Rightarrow> jsstring" where
  "lit s = map of_char s"

text \<open>\<open>data[i]\<close>: \<open>undefined\<close> past the end of the buffer.\<close>

definition at :: "buffer \<Rightarrow> nat \<Rightarrow> jsnum" where
  "at data i = (if i < length data then Num (uint (data ! i)) else NaN)"

text \<open>\<open>ToInt32\<close> of ECMAScript: \<open>NaN\<close> and \<open>undefined\<close> become 0, an integer wraps
  into the signed 32-bit range.\<close>

fun ToInt32 :: "jsnum \<Rightarrow> int" where
  "ToInt32 NaN = 0"
| "ToInt32 (Num n) = signed_take_bit 31 n"

text \<open>The shift \<open>x << 8\<close>: both the operand and the result are signed 32-bit integers.\<close>

definition shl8 :: "jsnum \<Rightarrow> jsnum" where
  "shl8 x = Num (signed_take_bit 31 (push_bit 8 (ToInt32 x)))"

text \<open>\<open>x + y\<close> on numbers: \<open>NaN\<close> as soon as one side is \<open>NaN\<close> or \<open>undefined\<close>.\<close>

fun plus :: "jsnum \<Rightarrow> jsnum \<Rightarrow> jsnum" where
  "plus (Num a) (Num b) = Num (a + b)"
| "plus _ _ = NaN"

section \<open>Length codec\<close>

text \<open>
  \<open>Receiver.decodeLength\<close> (\<open>src/dist/connector/Receiver.js\<close>, lines 272-304). The result is the pair
  \<open>[idx, len]\<close>: the number of prefix bytes the first byte announces and the decoded
  length. The function reads \<open>data[idx++]\<close> without looking at \<open>data.length\<close>.
\<close>

definition decodeLength :: "buffer \<Rightarrow> nat \<times> jsnum" where
  "decodeLength data =
     (case data of
        [] \<Rightarrow> (1, NaN)
      | b # _ \<Rightarrow>
          if b AND 128 \<noteq> 0 then
            if b AND 192 = 128 then
              (2, plus (shl8 (Num (uint (b AND 63)))) (at data 1))
            else if b AND 224 = 192 then
              (let len = plus (shl8 (Num (uint (b AND 31)))) (at data 1);
                   len = plus (shl8 len) (at data 2)
               in (3, len))
            else if b AND 240 = 224 then
              (let len = plus (shl8 (Num (uint (b AND 15)))) (at data 1);
                   len = plus (shl8 len) (at data 2);
                   len = plus (shl8 len) (at data 3)
               in (4, len))
            else
              (let len = at data 1;
                   len = plus (shl8 len) (at data 2);
                   len = plus (shl8 len) (at data 3);
                   len = plus (shl8 len) (at data 4)
               in (5, len))
          else (1, Num (uint b)))"

text \<open>
  Modelled from the spec: the encoder of the length prefix (the Transmitter) is not among
  the source files. Section 4.1 of the specification gives the five prefix forms and
  says that the encoder picks the shortest one.
\<close>

definition encode_length :: "nat \<Rightarrow> buffer" where
  "encode_length L =
     (if L < 0x80 then [of_nat L]
      else if L < 0x4000 then [of_nat (L div 0x100) OR 0x80, of_nat L]
      else if L < 0x200000 then
        [of_nat (L div 0x10000) OR 0xC0, of_nat (L div 0x100), of_nat L]
      else if L < 0x10000000 then
        [of_nat (L div 0x1000000) OR 0xE0, of_nat (L div 0x10000), of_nat (L div 0x100),
         of_nat L]
      else
        [0xF0, of_nat (L div 0x1000000), of_nat (L div 0x10000), of_nat (L div 0x100),
         of_nat L])"

definition prefix_size :: "nat \<Rightarrow> nat" where
  "prefix_size L =
     (if L < 0x80 then 1 else if L < 0x4000 then 2 else if L < 0x200000 then 3
      else if L < 0x10000000 then 4 else 5)"

section \<open>Receiver\<close>

text \<open>
  \<open>iconv.decode(data, 'win1252')\<close>. iconv-lite is an external library; its single-byte
  decoder maps every byte through a fixed table, so the decoding of a buffer is the
  decoding of its bytes, one code unit each. Bytes below 0x80 and from 0xA0 on are their
  own code points; the table gives the others, with U+FFFD for the five bytes that
  Windows-1252 leaves undefined.
\<close>

definition win1252_high :: "nat list" where
  "win1252_high =
     [0x20AC, 0xFFFD, 0x201A, 0x0192, 0x201E, 0x2026, 0x2020, 0x2021,
      0x02C6, 0x2030, 0x0160, 0x2039, 0x0152, 0xFFFD, 0x017D, 0xFFFD,
      0xFFFD, 0x2018, 0x2019, 0x201C, 0x201D, 0x2022, 0x2013, 0x2014,
      0x02DC, 0x2122, 0x0161, 0x203A, 0x0153, 0xFFFD, 0x017E, 0x0178]"

definition win1252 :: "byte \<Rightarrow> nat" where
  "win1252 b =
     (let n = unat b in if 128 \<le> n \<and> n < 160 then win1252_high ! (n - 128) else n)"

definition iconv_decode :: "buffer \<Rightarrow> jsstring" where
  "iconv_decode data = map win1252 data"

text \<open>
  The errors the library raises are \<open>RosException\<close>s, told apart by their \<open>errno\<close>
  (\<open>Errno\<close> carries the \<open>errno\<close> of a socket error). \<open>TypeError\<close> is what the
  runtime throws when a method is called on \<open>undefined\<close> or \<open>null\<close>, \<open>UnhandledError\<close>
  what an \<open>EventEmitter\<close> throws when \<open>error\<close> is emitted and nobody listens for it.
  \<open>ERR_OUT_OF_RANGE\<close>, \<open>ERR_MISSING_ARGS\<close> and \<open>ERR_SOCKET_BAD_PORT\<close> are the
  errors a socket of the runtime throws at a bad argument.
\<close>

datatype ros_error =
  UNREGISTEREDTAG | STREAMCLOSD | SOCKTMOUT | Errno jsstring | TypeError | UnhandledError
  | ERR_OUT_OF_RANGE | ERR_MISSING_ARGS | ERR_SOCKET_BAD_PORT

text \<open>
  A subscriber's callback is an opaque function of the caller: the model names it by a
  number and records every invocation, with the packet passed, in \<open>delivered\<close>; what
  the callback does in turn is outside the model.
  The entry \<open>{name: tag, callback: callback}\<close> that \<open>read\<close> stores under a tag is
  represented by its callback (its name is the key). \<open>tags\<close> is a JavaScript \<open>Map\<close>:
  an association list in insertion order. \<open>fatalEmitted\<close> counts the
  \<open>socket.emit('fatal')\<close> calls. \<open>currentReply\<close> and \<open>currentTag\<close> are strings or
  \<open>null\<close>; \<open>lengthDescriptorSegment\<close> is a buffer, \<open>undefined\<close> or \<open>null\<close>.
\<close>

type_synonym callback_id = nat

record receiver =
  tags :: "(jsstring \<times> callback_id) list"
  dataLength :: jsnum
  sentencePipe :: "(jsstring \<times> bool) list"
  processingSentencePipe :: bool
  currentLine :: jsstring
  currentReply :: "jsstring option"
  currentTag :: "jsstring option"
  currentPacket :: "jsstring list"
  lengthDescriptorSegment :: "buffer option"
  delivered :: "(callback_id \<times> jsstring list) list"
  fatalEmitted :: nat

text \<open>The state the constructor leaves (Receiver.js, lines 22-58).\<close>

definition Receiver :: receiver where
  "Receiver =
     \<lparr> tags = [], dataLength = Num 0, sentencePipe = [], processingSentencePipe = False,
       currentLine = [], currentReply = Some [], currentTag = Some [], currentPacket = [],
       lengthDescriptorSegment = None, delivered = [], fatalEmitted = 0 \<rparr>"

text \<open>\<open>read\<close> (lines 68-74) and \<open>stop\<close> (lines 83-86): \<open>Map.set\<close> and \<open>Map.delete\<close>.\<close>

definition read :: "jsstring \<Rightarrow> callback_id \<Rightarrow> receiver \<Rightarrow> receiver" where
  "read tag cb r = r\<lparr>tags := AList.update tag cb (tags r)\<rparr>"

definition stop :: "jsstring \<Rightarrow> receiver \<Rightarrow> receiver" where
  "stop tag r = r\<lparr>tags := AList.delete tag (tags r)\<rparr>"

text \<open>A result is the receiver after a normal return, or the exception thrown together
  with the receiver as the throw left it.\<close>

type_synonym result = "(ros_error \<times> receiver) + receiver"

text \<open>\<open>cleanUp\<close> (lines 259-263).\<close>

definition cleanUp :: "receiver \<Rightarrow> receiver" where
  "cleanUp r = r\<lparr>currentPacket := [], currentTag := None, currentReply := None\<rparr>"

text \<open>\<open>sendTagData\<close> (lines 244-254): the throw comes before \<open>cleanUp\<close>.\<close>

definition sendTagData :: "jsstring \<Rightarrow> receiver \<Rightarrow> result" where
  "sendTagData tag r =
     (case map_of (tags r) tag of
        Some cb \<Rightarrow> Inr (cleanUp (r\<lparr>delivered := delivered r @ [(cb, currentPacket r)]\<rparr>))
      | None \<Rightarrow> Inl (UNREGISTEREDTAG, r))"

text \<open>Truthiness of a string or \<open>null\<close>; the tests \<open>/^\.tag=/\<close> and \<open>/^!/\<close>.\<close>

definition truthy :: "jsstring option \<Rightarrow> bool" where
  "truthy v = (case v of None \<Rightarrow> False | Some s \<Rightarrow> s \<noteq> [])"

definition is_tag_line :: "jsstring \<Rightarrow> bool" where
  "is_tag_line s = (take 5 s = lit ''.tag='')"

definition is_reply_line :: "jsstring \<Rightarrow> bool" where
  "is_reply_line s = (take 1 s = lit ''!'')"

text \<open>
  The closure \<open>process\<close> of \<open>processSentence\<close> (lines 196-236). Its recursion takes
  one line off \<open>sentencePipe\<close> per call; the lines still in the pipe are the first
  argument, and the field is kept equal to it.
\<close>

fun process :: "(jsstring \<times> bool) list \<Rightarrow> receiver \<Rightarrow> result" where
  "process [] r = Inr (r\<lparr>processingSentencePipe := False\<rparr>)"
| "process ((sentence, hadMore) # pipe) r0 =
     (let r = r0\<lparr>sentencePipe := pipe\<rparr> in
      if \<not> hadMore \<and> currentReply r = Some (lit ''!fatal'') then
        Inr (r\<lparr>fatalEmitted := fatalEmitted r + 1\<rparr>)
      else
        (case
           (if is_tag_line sentence then Inr (r\<lparr>currentTag := Some (drop 5 sentence)\<rparr>)
            else if is_reply_line sentence then
              (case (if truthy (currentTag r) then sendTagData (the (currentTag r)) r
                     else Inr r) of
                 Inl e \<Rightarrow> Inl e
               | Inr r \<Rightarrow>
                   Inr (r\<lparr>currentPacket := currentPacket r @ [sentence],
                          currentReply := Some sentence\<rparr>))
            else Inr (r\<lparr>currentPacket := currentPacket r @ [sentence]\<rparr>))
         of
           Inl e \<Rightarrow> Inl e
         | Inr r \<Rightarrow>
             if pipe = [] \<and> dataLength r = Num 0 then
               (case (if \<not> hadMore \<and> truthy (currentTag r)
                      then sendTagData (the (currentTag r)) r else Inr r) of
                  Inl e \<Rightarrow> Inl e
                | Inr r \<Rightarrow> Inr (r\<lparr>processingSentencePipe := False\<rparr>))
             else process pipe r))"

text \<open>\<open>processSentence\<close> (lines 192-239).\<close>

definition processSentence :: "receiver \<Rightarrow> result" where
  "processSentence r =
     (if \<not> processingSentencePipe r
      then process (sentencePipe r) (r\<lparr>processingSentencePipe := True\<rparr>)
      else Inr r)"

text \<open>
  The body of the loop of \<open>processRawData\<close> (lines 103-182), one function per branch.
  Each gives the data left for the next round and the result so far.

  Lines 109-128: the buffer holds no more than the word still wants. The loop ends here
  (\<open>break\<close>).
\<close>

definition take_all :: "int \<Rightarrow> buffer \<Rightarrow> receiver \<Rightarrow> result" where
  "take_all n data r0 =
     (let r = r0\<lparr>dataLength := Num (n - int (length data)),
                 currentLine := currentLine r0 @ iconv_decode data\<rparr>
      in if dataLength r = Num 0 then
           (case processSentence
                   (r\<lparr>sentencePipe := sentencePipe r
                          @ [(currentLine r, Num (int (length data)) \<noteq> dataLength r)]\<rparr>) of
              Inl e \<Rightarrow> Inl e
            | Inr r \<Rightarrow> Inr (r\<lparr>currentLine := []\<rparr>))
         else Inr r)"

text \<open>Lines 157-160 and 177-180: a length of 1 followed by exactly one null byte.\<close>

definition null_word :: "buffer \<Rightarrow> receiver \<Rightarrow> buffer \<times> receiver" where
  "null_word data r =
     (if dataLength r = Num 1 \<and> data = [0] then (drop 1 data, r\<lparr>dataLength := Num 0\<rparr>)
      else (data, r))"

text \<open>Lines 130-166: the buffer holds more than the word still wants.\<close>

definition take_word :: "int \<Rightarrow> buffer \<Rightarrow> receiver \<Rightarrow> buffer \<times> result" where
  "take_word n data0 r0 =
     (let tmpBuffer = take (nat n) data0;
          tmpStr = iconv_decode tmpBuffer;
          r = r0\<lparr>currentLine := currentLine r0 @ tmpStr\<rparr>;
          line = currentLine r;
          r = r\<lparr>currentLine := []\<rparr>;
          data = drop (nat n) data0;
          (descriptor_length, len) = decodeLength data;
          r = (if descriptor_length > length data
               then r\<lparr>lengthDescriptorSegment := Some data\<rparr> else r);
          r = r\<lparr>dataLength := len\<rparr>;
          data = drop descriptor_length data;
          (data, r) = null_word data r;
          r = r\<lparr>sentencePipe := sentencePipe r @ [(line, data \<noteq> [])]\<rparr>
      in (data, processSentence r))"

text \<open>Lines 170-181: the buffer starts a new word.\<close>

definition new_word :: "buffer \<Rightarrow> receiver \<Rightarrow> buffer \<times> receiver" where
  "new_word data0 r0 =
     (let (descriptor_length, len) = decodeLength data0;
          r = r0\<lparr>dataLength := len\<rparr>;
          data = drop descriptor_length data0
      in null_word data r)"

text \<open>The test \<open>this.dataLength > 0\<close>, false for \<open>NaN\<close>.\<close>

fun wanted :: "jsnum \<Rightarrow> int option" where
  "wanted (Num n) = (if n > 0 then Some n else None)"
| "wanted NaN = None"

lemma length_null_word: "null_word data r = (data', r') \<Longrightarrow> length data' \<le> length data"
  by (auto simp: null_word_def split: if_splits)

lemma decodeLength_pos: "0 < fst (decodeLength data)"
  by (simp add: decodeLength_def Let_def split: list.split)

lemma length_take_word:
  assumes "0 < n" and "data \<noteq> []"
  shows "length (fst (take_word n data r)) < length data"
proof -
  obtain dl len where d: "decodeLength (drop (nat n) data) = (dl, len)"
    by (cases "decodeLength (drop (nat n) data)")
  have "length (fst (take_word n data r)) \<le> length (drop dl (drop (nat n) data))"
    by (auto simp: take_word_def Let_def d split: prod.splits dest!: length_null_word)
  moreover have "length (drop dl (drop (nat n) data)) < length data"
    using assms by (cases data) auto
  ultimately show ?thesis by simp
qed

lemma length_new_word:
  assumes "data \<noteq> []"
  shows "length (fst (new_word data r)) < length data"
proof -
  obtain dl len where d: "decodeLength data = (dl, len)"
    by (cases "decodeLength data")
  have "0 < dl" using decodeLength_pos[of data] d by simp
  moreover have "length (fst (new_word data r)) \<le> length (drop dl data)"
    using length_null_word[of "drop dl data" "r\<lparr>dataLength := len\<rparr>"]
    by (cases "null_word (drop dl data) (r\<lparr>dataLength := len\<rparr>)") (simp add: new_word_def d)
  ultimately show ?thesis using assms by (cases data) auto
qed

text \<open>The loop \<open>while (data.length > 0)\<close> of \<open>processRawData\<close>.\<close>

function (sequential) loop :: "buffer \<Rightarrow> receiver \<Rightarrow> result" where
  "loop [] r = Inr r"
| "loop data r =
     (case wanted (dataLength r) of
        Some n \<Rightarrow>
          if int (length data) \<le> n then take_all n data r
          else (case snd (take_word n data r) of
                  Inl e \<Rightarrow> Inl e
                | Inr r' \<Rightarrow> loop (fst (take_word n data r)) r')
      | None \<Rightarrow> loop (fst (new_word data r)) (snd (new_word data r)))"
  by pat_completeness auto
termination
proof (relation "measure (\<lambda>(data, r). length data)")
  show "wf (measure (\<lambda>(data, r). length data))" by simp
next
  fix v va x2 x2a and r :: receiver
  assume "wanted (dataLength r) = Some x2"
  then have "0 < x2" by (cases "dataLength r") (auto split: if_splits)
  then show "((fst (take_word x2 (v # va) r), x2a), v # va, r) \<in> measure (\<lambda>(data, r). length data)"
    using length_take_word[of x2 "v # va" r] by simp
next
  fix v va and r :: receiver
  show "((fst (new_word (v # va) r), snd (new_word (v # va) r)), v # va, r)
      \<in> measure (\<lambda>(data, r). length data)"
    using length_new_word[of "v # va" r] by (simp add: case_prod_beta)
qed

text \<open>\<open>processRawData\<close> (lines 97-183).\<close>

definition processRawData :: "buffer \<Rightarrow> receiver \<Rightarrow> result" where
  "processRawData data r =
     (case lengthDescriptorSegment r of
        Some segment \<Rightarrow> loop (segment @ data) (r\<lparr>lengthDescriptorSegment := None\<rparr>)
      | None \<Rightarrow> loop data r)"

text \<open>
  The socket hands the Receiver one buffer per \<open>data\<close> event (\<open>Connector.onData\<close>);
  an exception ends the run.
\<close>

fun feed :: "receiver \<Rightarrow> buffer list \<Rightarrow> result" where
  "feed r [] = Inr r"
| "feed r (chunk # chunks) =
     (case processRawData chunk r of Inl e \<Rightarrow> Inl e | Inr r' \<Rightarrow> feed r' chunks)"

text \<open>
  Modelled from the spec: the encoder of a word (the Transmitter) is not among the source
  files. Section 4.2: a word on the wire is its length prefix followed by its payload
  bytes; section 3: a sentence is its words followed by an empty word.
\<close>

definition encode_word :: "buffer \<Rightarrow> buffer" where
  "encode_word w = encode_length (length w) @ w"

definition encode_sentence :: "buffer list \<Rightarrow> buffer" where
  "encode_sentence ws = concat (map encode_word ws) @ encode_word []"

section \<open>Connector\<close>

text \<open>
  The Connector is the first class of \<open>src/unnamed/part_001\<close>; the RStream further
  down is the second, from line 203 on. Line numbers are those of that file.

  The options object handed to the constructor. A field that is absent is \<open>None\<close>;
  \<open>tls\<close> is absent, a boolean, an options object (its keys and values) or \<open>null\<close>.
\<close>

type_synonym js_object = "(jsstring \<times> jsstring) list"

datatype tls_option = TlsUndefined | TlsBoolean bool | TlsObject js_object | TlsNull

record connector_options =
  opt_host :: jsstring
  opt_timeout :: "int option"
  opt_port :: "int option"
  opt_tls :: tls_option

text \<open>
  The socket, as far as the Connector drives it: the port and host it was asked to
  connect to (\<open>None\<close> and the empty host as long as it was asked for no
  connection), whether it came from \<open>tls.connect\<close>, the value given to
  \<open>setTimeout\<close> (\<open>NaN\<close> as long as none was) and the calls \<open>setKeepAlive\<close>,
  \<open>end\<close> and \<open>destroy\<close>.
\<close>

record socket =
  remote_port :: "int option"
  remote_host :: jsstring
  secure :: bool
  idle_timeout :: jsnum
  keepAlive :: bool
  ended :: bool
  destroyed :: bool

text \<open>
  The events the Connector emits. Its listeners are code of the caller: the model records
  every emission in \<open>emitted\<close> and keeps in \<open>listening\<close> the names of the events that
  have a listener. An \<open>EventEmitter\<close> throws the error when \<open>error\<close> is emitted and
  nobody listens.
\<close>

datatype connector_event = Connected | Close | Error ros_error | Timeout ros_error

record connector =
  host :: jsstring
  port :: "int option"
  timeout :: "int option"
  tls :: tls_option
  connected :: bool
  connecting :: bool
  closing :: bool
  socket :: "socket option"
  receiver :: "receiver option"
  pool_run :: bool
  emitted :: "connector_event list"
  listening :: "jsstring list"

type_synonym connector_result = "(ros_error \<times> connector) + connector"

text \<open>Truthiness of an optional number, and of \<open>this.tls\<close>.\<close>

definition truthy_num :: "int option \<Rightarrow> bool" where
  "truthy_num v = (case v of None \<Rightarrow> False | Some n \<Rightarrow> n \<noteq> 0)"

fun truthy_tls :: "tls_option \<Rightarrow> bool" where
  "truthy_tls (TlsObject _) = True"
| "truthy_tls (TlsBoolean b) = b"
| "truthy_tls _ = False"

text \<open>\<open>typeof options.tls === 'object'\<close>: an object or \<open>null\<close>.\<close>

fun typeof_object :: "tls_option \<Rightarrow> bool" where
  "typeof_object (TlsObject _) = True"
| "typeof_object TlsNull = True"
| "typeof_object _ = False"

text \<open>The constructor (lines 28-54).\<close>

definition Connector :: "connector_options \<Rightarrow> connector" where
  "Connector options =
     (let c = \<lparr> host = opt_host options, port = None, timeout = None, tls = TlsUndefined,
                connected = False, connecting = False, closing = False, socket = None,
                receiver = None, pool_run = False, emitted = [], listening = [] \<rparr>;
          c = (if truthy_num (opt_timeout options) then c\<lparr>timeout := opt_timeout options\<rparr>
               else c);
          c = (if truthy_num (opt_port options) then c\<lparr>port := opt_port options\<rparr> else c);
          options_tls = (case opt_tls options of TlsBoolean True \<Rightarrow> TlsObject []
                         | t \<Rightarrow> t)
      in if typeof_object options_tls then
           (if \<not> truthy_num (opt_port options) then c\<lparr>port := Some 8729\<rparr> else c)
             \<lparr>tls := options_tls\<rparr>
         else c)"

text \<open>\<open>this.timeout * 1000\<close>.\<close>

definition timeout_ms :: "int option \<Rightarrow> jsnum" where
  "timeout_ms t = (case t of None \<Rightarrow> NaN | Some n \<Rightarrow> Num (n * 1000))"

text \<open>
  The arguments a socket of the runtime refuses (\<open>net\<close> and \<open>tls\<close> are modules of
  Node.js, not of this library): \<open>setTimeout\<close> throws \<open>ERR_OUT_OF_RANGE\<close> unless
  its argument is a finite number that is not negative; \<open>socket.connect\<close> and
  \<open>tls.connect\<close> throw \<open>ERR_MISSING_ARGS\<close> when the port is \<open>undefined\<close> and
  \<open>ERR_SOCKET_BAD_PORT\<close> when it is not a port from 0 to 65535.
\<close>

definition valid_timeout :: "jsnum \<Rightarrow> bool" where
  "valid_timeout t = (case t of NaN \<Rightarrow> False | Num n \<Rightarrow> 0 \<le> n)"

definition valid_port :: "int \<Rightarrow> bool" where
  "valid_port p = (0 \<le> p \<and> p \<le> 65535)"

text \<open>
  \<open>connect\<close> (lines 60-94). With TLS (lines 64-75) the socket comes from
  \<open>tls.connect\<close>, already asked to connect to \<open>this.port\<close> on \<open>this.host\<close>; then
  the Transmitter and the Receiver are made, the handlers bound, and \<open>setTimeout\<close> and
  \<open>setKeepAlive\<close> called. Without TLS (lines 77-89) the socket is made first, and
  \<open>socket.connect\<close> is the last call. An exception leaves the Connector as it was
  when the call threw, with \<open>connecting\<close> set.
\<close>

definition connect :: "connector \<Rightarrow> connector_result" where
  "connect c0 =
     (if \<not> connected c0 then
        if \<not> connecting c0 then
          (let c = c0\<lparr>connecting := True\<rparr>
           in if truthy_tls (tls c) then
                (case port c of
                   None \<Rightarrow> Inl (ERR_MISSING_ARGS, c)
                 | Some p \<Rightarrow>
                     if \<not> valid_port p then Inl (ERR_SOCKET_BAD_PORT, c)
                     else
                       (let sock = \<lparr> remote_port = Some p, remote_host = host c,
                                     secure = True, idle_timeout = NaN, keepAlive = False,
                                     ended = False, destroyed = False \<rparr>;
                            c = c\<lparr>socket := Some sock, receiver := Some Receiver\<rparr>
                        in if \<not> valid_timeout (timeout_ms (timeout c))
                           then Inl (ERR_OUT_OF_RANGE, c)
                           else Inr (c\<lparr>socket :=
                                        Some (sock\<lparr>idle_timeout := timeout_ms (timeout c),
                                                   keepAlive := True\<rparr>)\<rparr>)))
              else
                (let sock = \<lparr> remote_port = None, remote_host = [], secure = False,
                              idle_timeout = NaN, keepAlive = False, ended = False,
                              destroyed = False \<rparr>;
                     c = c\<lparr>socket := Some sock, receiver := Some Receiver\<rparr>
                 in if \<not> valid_timeout (timeout_ms (timeout c)) then Inl (ERR_OUT_OF_RANGE, c)
                    else
                      (let sock = sock\<lparr>idle_timeout := timeout_ms (timeout c),
                                       keepAlive := True\<rparr>;
                           c = c\<lparr>socket := Some sock\<rparr>
                       in case port c of
                            None \<Rightarrow> Inl (ERR_MISSING_ARGS, c)
                          | Some p \<Rightarrow>
                              if \<not> valid_port p then Inl (ERR_SOCKET_BAD_PORT, c)
                              else Inr (c\<lparr>socket :=
                                           Some (sock\<lparr>remote_port := Some p,
                                                      remote_host := host c\<rparr>)\<rparr>))))
        else Inr c0
      else Inr c0)"

text \<open>\<open>read\<close> (lines 114-116) and \<open>stopRead\<close> (lines 121-123).\<close>

definition Connector_read :: "jsstring \<Rightarrow> callback_id \<Rightarrow> connector \<Rightarrow> connector_result" where
  "Connector_read tag cb c =
     (case receiver c of
        None \<Rightarrow> Inl (TypeError, c)
      | Some r \<Rightarrow> Inr (c\<lparr>receiver := Some (read tag cb r)\<rparr>))"

definition stopRead :: "jsstring \<Rightarrow> connector \<Rightarrow> connector_result" where
  "stopRead tag c =
     (case receiver c of
        None \<Rightarrow> Inl (TypeError, c)
      | Some r \<Rightarrow> Inr (c\<lparr>receiver := Some (stop tag r)\<rparr>))"

text \<open>\<open>emit\<close> of the \<open>EventEmitter\<close> the Connector extends.\<close>

definition emit :: "connector_event \<Rightarrow> connector \<Rightarrow> connector_result" where
  "emit e c =
     (case e of
        Error err \<Rightarrow>
          if lit ''error'' \<in> set (listening c) then Inr (c\<lparr>emitted := emitted c @ [e]\<rparr>)
          else Inl (err, c)
      | _ \<Rightarrow> Inr (c\<lparr>emitted := emitted c @ [e]\<rparr>))"

text \<open>\<open>close\<close> (lines 127-132) and \<open>destroy\<close> (lines 138-141).\<close>

definition close :: "connector \<Rightarrow> connector_result" where
  "close c =
     (if \<not> closing c then
        (case socket c of
           None \<Rightarrow> Inl (TypeError, c\<lparr>closing := True\<rparr>)
         | Some sock \<Rightarrow> Inr (c\<lparr>closing := True, socket := Some (sock\<lparr>ended := True\<rparr>)\<rparr>))
      else Inr c)"

definition destroy :: "connector \<Rightarrow> connector_result" where
  "destroy c =
     (case socket c of
        None \<Rightarrow> Inl (TypeError, c)
      | Some sock \<Rightarrow> Inr (c\<lparr>socket := Some (sock\<lparr>destroyed := True\<rparr>), listening := []\<rparr>))"

text \<open>The socket's listeners: \<open>onConnect\<close> (lines 150-156), \<open>onEnd\<close> (lines 164-167),
  \<open>onError\<close> (lines 175-180), \<open>onTimeout\<close> (lines 187-190) and \<open>onData\<close>
  (lines 197-200). \<open>onError\<close> takes the \<open>errno\<close> of the socket's error.\<close>

definition onConnect :: "connector \<Rightarrow> connector_result" where
  "onConnect c = emit Connected (c\<lparr>connecting := False, connected := True, pool_run := True\<rparr>)"

definition onEnd :: "connector \<Rightarrow> connector_result" where
  "onEnd c = (case emit Close c of Inl e \<Rightarrow> Inl e | Inr c \<Rightarrow> destroy c)"

definition onError :: "jsstring \<Rightarrow> connector \<Rightarrow> connector_result" where
  "onError errno c =
     (case emit (Error (Errno errno)) c of Inl e \<Rightarrow> Inl e | Inr c \<Rightarrow> destroy c)"

definition onTimeout :: "connector \<Rightarrow> connector_result" where
  "onTimeout c = (case emit (Timeout SOCKTMOUT) c of Inl e \<Rightarrow> Inl e | Inr c \<Rightarrow> destroy c)"

definition onData :: "buffer \<Rightarrow> connector \<Rightarrow> connector_result" where
  "onData data c =
     (case receiver c of
        None \<Rightarrow> Inl (TypeError, c)
      | Some r \<Rightarrow>
          (case processRawData data r of
             Inl (e, r') \<Rightarrow> Inl (e, c\<lparr>receiver := Some r'\<rparr>)
           | Inr r' \<Rightarrow> Inr (c\<lparr>receiver := Some r'\<rparr>)))"

section \<open>RStream\<close>

text \<open>
  A parsed reply is an object: its keys and values. The empty array that the debounce
  timer passes to \<open>onStream\<close> has no keys.

  What a stream does to the outside is recorded in \<open>effects\<close>, in order: the events it
  emits, the calls of the consumer's callback with their arguments, and the calls it
  makes on channels. The Channel is not among the source files: \<open>channel\<close> holds the
  \<open>Id\<close> of the stream's channel, or \<open>None\<close> when \<open>this.channel\<close> is not set.
\<close>

type_synonym packet = js_object

datatype stream_effect =
    Emit_data packet
  | Emit_stopped
  | Emit_started
  | Emit_done
  | Emit_close
  | Emit_error packet
  | Emit_trap packet
  | Callback_packet callback_id packet
  | Callback_section callback_id "packet list"
  | Callback_error callback_id jsstring
  | Channel_listen
  | Channel_write "jsstring list"
  | Channel_close
  | Cancel_write "jsstring list"

text \<open>
  What a call that returns a promise gives back: a promise already resolved or rejected,
  a promise that waits for the \<open>/cancel\<close> write, or an exception thrown before any
  promise was made.
\<close>

datatype outcome = Resolved | Rejected ros_error | Pending | Thrown ros_error

text \<open>
  \<open>debounceSendingEmptyData\<close> is \<open>None\<close> until \<open>prepareDebounceEmptyData\<close> makes the
  debouncer, then \<open>Some armed\<close>. \<open>sectionPacketSendingTimeout\<close> says whether the
  300 ms timer of \<open>onStream\<close> is pending. A timer is a pending event: its delay is not
  modelled. \<open>error_listener\<close> says whether somebody listens for the stream's \<open>error\<close>
  event.
\<close>

record rstream =
  shouldDebounceEmptyData :: bool
  streaming :: bool
  pausing :: bool
  paused :: bool
  stopping :: bool
  stopped :: bool
  trapped :: bool
  currentSection :: "jsstring option"
  forcelyStop :: bool
  currentSectionPacket :: "packet list"
  channel :: "jsstring option"
  params :: "jsstring list"
  callback :: "callback_id option"
  debounceSendingEmptyData :: "bool option"
  sectionPacketSendingTimeout :: bool
  error_listener :: bool
  effects :: "stream_effect list"

type_synonym stream_result = "(ros_error \<times> rstream) + rstream"

text \<open>The constructor (lines 227-268) and \<open>data\<close> (lines 277-279).\<close>

definition RStream :: "jsstring option \<Rightarrow> jsstring list \<Rightarrow> callback_id option \<Rightarrow> rstream" where
  "RStream chan ps cb =
     \<lparr> shouldDebounceEmptyData = False, streaming = True, pausing = False, paused = False,
       stopping = False, stopped = False, trapped = False, currentSection = None,
       forcelyStop = False, currentSectionPacket = [], channel = chan, params = ps,
       callback = cb, debounceSendingEmptyData = None,
       sectionPacketSendingTimeout = False, error_listener = False, effects = [] \<rparr>"

definition RStream_data :: "callback_id \<Rightarrow> rstream \<Rightarrow> rstream" where
  "RStream_data cb s = s\<lparr>callback := Some cb\<rparr>"

definition effect :: "stream_effect \<Rightarrow> rstream \<Rightarrow> rstream" where
  "effect e s = s\<lparr>effects := effects s @ [e]\<rparr>"

text \<open>
  Modelled from the spec: \<open>debounce\<close> of \<open>utils\<close> is not among the source files.
  Section 4.8: the timer is re-armed by every sentence the stream observes (\<open>run\<close>);
  \<open>cancel\<close> disarms it.
\<close>

definition debounce_run :: "rstream \<Rightarrow> rstream" where
  "debounce_run s =
     (case debounceSendingEmptyData s of
        None \<Rightarrow> s
      | Some _ \<Rightarrow> s\<lparr>debounceSendingEmptyData := Some True\<rparr>)"

definition debounce_cancel :: "rstream \<Rightarrow> rstream" where
  "debounce_cancel s =
     (case debounceSendingEmptyData s of
        None \<Rightarrow> s
      | Some _ \<Rightarrow> s\<lparr>debounceSendingEmptyData := Some False\<rparr>)"

text \<open>
  \<open>onStream\<close> (lines 419-441) with its closure \<open>sendData\<close>. The timer is set only
  when a callback is there, and \<open>data\<close> replaces a callback by another one, so
  \<open>sendData\<close> finds one.
\<close>

definition sendData :: "rstream \<Rightarrow> rstream" where
  "sendData s =
     (case callback s of
        Some cb \<Rightarrow>
          (effect (Callback_section cb (currentSectionPacket s)) s)\<lparr>currentSectionPacket := []\<rparr>
      | None \<Rightarrow> s)"

definition section_of :: "packet \<Rightarrow> jsstring option" where
  "section_of p = map_of p (lit ''.section'')"

definition onStream :: "packet \<Rightarrow> rstream \<Rightarrow> rstream" where
  "onStream p s0 =
     (let s = effect (Emit_data p) s0
      in case callback s of
           None \<Rightarrow> s
         | Some cb \<Rightarrow>
             if truthy (section_of p) then
               (let s = s\<lparr>sectionPacketSendingTimeout := True\<rparr>;
                    s = (if currentSectionPacket s \<noteq> [] \<and> section_of p \<noteq> currentSection s
                         then sendData (s\<lparr>sectionPacketSendingTimeout := False\<rparr>) else s)
                in s\<lparr>currentSection := section_of p,
                     currentSectionPacket := currentSectionPacket s @ [p]\<rparr>)
             else effect (Callback_packet cb p) s)"

text \<open>The 300 ms timer of \<open>onStream\<close> fires.\<close>

definition section_timeout :: "rstream \<Rightarrow> rstream" where
  "section_timeout s =
     (if sectionPacketSendingTimeout s
      then sendData (s\<lparr>sectionPacketSendingTimeout := False\<rparr>) else s)"

text \<open>\<open>prepareDebounceEmptyData\<close> (lines 393-412), and its timer firing.\<close>

definition prepareDebounceEmptyData :: "rstream \<Rightarrow> rstream" where
  "prepareDebounceEmptyData s =
     s\<lparr>shouldDebounceEmptyData := True, debounceSendingEmptyData := Some False\<rparr>"

definition debounce_timeout :: "rstream \<Rightarrow> rstream" where
  "debounce_timeout s0 =
     (if debounceSendingEmptyData s0 = Some True then
        (let s = s0\<lparr>debounceSendingEmptyData := Some False\<rparr>
         in if \<not> stopped s \<or> \<not> stopping s \<or> \<not> paused s \<or> \<not> pausing s
            then debounce_run (onStream [] s) else s)
      else s0)"

text \<open>
  \<open>start\<close> (lines 370-392). The listeners it binds on the channel are \<open>channel_close\<close>,
  \<open>channel_stream\<close>, \<open>onTrap\<close> and \<open>onDone\<close> below.
\<close>

definition start :: "rstream \<Rightarrow> stream_result" where
  "start s0 =
     (if \<not> stopped s0 \<and> \<not> stopping s0 then
        (case channel s0 of
           None \<Rightarrow> Inl (TypeError, s0)
         | Some _ \<Rightarrow>
             (let s = effect Channel_listen s0;
                  s = effect (Channel_write (params s)) s;
                  s = effect Emit_started s
              in Inr (if shouldDebounceEmptyData s then prepareDebounceEmptyData s else s)))
      else Inr s0)"

definition channel_close :: "rstream \<Rightarrow> rstream" where
  "channel_close s0 =
     (let s = (if forcelyStop s0 \<or> (\<not> pausing s0 \<and> \<not> paused s0) then
                 effect Emit_close (if \<not> trapped s0 then effect Emit_done s0 else s0)
               else s0)
      in s\<lparr>stopped := False\<rparr>)"

definition channel_stream :: "packet \<Rightarrow> rstream \<Rightarrow> rstream" where
  "channel_stream p s = onStream p (debounce_run s)"

text \<open>\<open>stop\<close> (lines 325-360), up to the promise it returns, and the function it chains
  to the \<open>/cancel\<close> write (lines 348-356), which runs when that write has resolved.\<close>

definition RStream_stop :: "bool \<Rightarrow> rstream \<Rightarrow> rstream \<times> outcome" where
  "RStream_stop pausing_arg s0 =
     (if stopped s0 \<or> stopping s0 then (s0, Resolved)
      else
        (let s = (if \<not> pausing_arg then s0\<lparr>forcelyStop := True\<rparr> else s0)
         in if paused s then
              (let s = s\<lparr>streaming := False, stopping := False, stopped := True\<rparr>
               in (if channel s \<noteq> None then effect Channel_close s else s, Resolved))
            else
              (let s = (if \<not> pausing s then s\<lparr>stopping := True\<rparr> else s)
               in case channel s of
                    None \<Rightarrow> (s, Thrown TypeError)
                  | Some chan_id \<Rightarrow>
                      (effect (Cancel_write [lit ''/cancel'', lit ''=tag='' @ chan_id])
                         (debounce_cancel s),
                       Pending))))"

definition stop_then :: "rstream \<Rightarrow> rstream" where
  "stop_then s0 =
     (let s = s0\<lparr>streaming := False\<rparr>;
          s = (if \<not> pausing s then s\<lparr>stopping := False, stopped := True\<rparr> else s)
      in effect Emit_stopped s)"

text \<open>\<open>close\<close> (lines 364-366).\<close>

definition RStream_close :: "rstream \<Rightarrow> rstream \<times> outcome" where
  "RStream_close s = RStream_stop False s"

text \<open>\<open>pause\<close> (lines 300-318), and the function it chains to \<open>stop(true)\<close>
  (lines 308-312). The promise of \<open>pause\<close> waits for that function.\<close>

definition pause :: "rstream \<Rightarrow> rstream \<times> outcome" where
  "pause s =
     (if stopped s \<or> stopping s then (s, Rejected STREAMCLOSD)
      else if pausing s \<or> paused s then (s, Resolved)
      else if streaming s then
        (case RStream_stop True (s\<lparr>pausing := True\<rparr>) of
           (s', Thrown e) \<Rightarrow> (s', Thrown e)
         | (s', Rejected e) \<Rightarrow> (s', Rejected e)
         | (s', _) \<Rightarrow> (s', Pending))
      else (s, Resolved))"

definition pause_then :: "rstream \<Rightarrow> rstream" where
  "pause_then s = s\<lparr>pausing := False, paused := True\<rparr>"

text \<open>\<open>resume\<close> (lines 285-294).\<close>

definition resume :: "rstream \<Rightarrow> rstream \<times> outcome" where
  "resume s =
     (if stopped s \<or> stopping s then (s, Rejected STREAMCLOSD)
      else if \<not> streaming s then
        (case start (s\<lparr>pausing := False\<rparr>) of
           Inl (e, s') \<Rightarrow> (s', Thrown e)
         | Inr s' \<Rightarrow> (s'\<lparr>streaming := True\<rparr>, Resolved))
      else (s, Resolved))"

text \<open>\<open>onTrap\<close> (lines 450-465) and \<open>onDone\<close> (lines 473-477). \<open>new Error(undefined)\<close>
  has the empty message.\<close>

definition onTrap :: "packet \<Rightarrow> rstream \<Rightarrow> stream_result" where
  "onTrap trap s0 =
     (if map_of trap (lit ''message'') = Some (lit ''interrupted'') then
        Inr (s0\<lparr>streaming := False\<rparr>)
      else
        (let s = s0\<lparr>stopped := True, trapped := True\<rparr>
         in case (case callback s of
                    Some cb \<Rightarrow>
                      Inr (effect (Callback_error cb
                                     (case map_of trap (lit ''message'') of
                                        None \<Rightarrow> [] | Some m \<Rightarrow> m)) s)
                  | None \<Rightarrow>
                      if error_listener s then Inr (effect (Emit_error trap) s)
                      else Inl (UnhandledError, s)) of
              Inl e \<Rightarrow> Inl e
            | Inr s \<Rightarrow> Inr (effect (Emit_trap trap) s)))"

definition onDone :: "rstream \<Rightarrow> rstream" where
  "onDone s = (if stopped s \<and> channel s \<noteq> None then effect Channel_close s else s)"

section \<open>Drivers\<close>

text \<open>
  What the claims quantify over: the bytes of an ASCII string, a sequence of \<open>read\<close> and
  \<open>stop\<close> calls on a Receiver, a listener bound with \<open>on\<close> to the Connector's
  \<open>error\<close> event, and running one Connector method after another (an exception ends
  the run).
\<close>

definition bytes :: "string \<Rightarrow> buffer" where
  "bytes s = map of_char s"

datatype tag_op = Read jsstring callback_id | Stop jsstring

fun apply_tag_op :: "tag_op \<Rightarrow> receiver \<Rightarrow> receiver" where
  "apply_tag_op (Read tag cb) r = read tag cb r"
| "apply_tag_op (Stop tag) r = stop tag r"

definition run_tag_ops :: "tag_op list \<Rightarrow> receiver \<Rightarrow> receiver" where
  "run_tag_ops ops r = fold apply_tag_op ops r"

definition on :: "jsstring \<Rightarrow> connector \<Rightarrow> connector" where
  "on name c = c\<lparr>listening := listening c @ [name]\<rparr>"

definition and_then :: "connector_result \<Rightarrow> (connector \<Rightarrow> connector_result) \<Rightarrow> connector_result" where
  "and_then res f = (case res of Inl e \<Rightarrow> Inl e | Inr c \<Rightarrow> f c)"

section \<open>A byte-by-byte reading of the stream\<close>

text \<open>
  The reference against which the Receiver is compared in the proof of C1: the words of a
  stream read one byte at a time, with one-byte length prefixes.

  \<open>Held tgs pkt rep tag dl\<close> is what the Receiver holds between two words: the
  subscriptions \<open>tags\<close>, the words of \<open>currentPacket\<close>, \<open>currentReply\<close>,
  \<open>currentTag\<close>, and the calls of subscribers made so far (\<open>delivered\<close>).
  \<open>deliver\<close> is \<open>sendTagData\<close> for the tag held, when it has a subscriber
  (\<open>subscribed\<close>): the packet goes to the subscriber and \<open>cleanUp\<close> empties what
  is held. \<open>note_line\<close> is what a completed word does, after the three branches of
  the closure \<open>process\<close> of \<open>processSentence\<close> (lines 204-216): a \<open>.tag=\<close> word
  sets the tag and is not kept; a reply word first delivers the packet held when a tag
  is set, then is kept and becomes the reply; any other word is kept. \<open>line_ok\<close> holds
  of the words for which this is all that happens: not \<open>!fatal\<close>, and not a reply word
  arriving while a tag without subscriber is set.

  \<open>A k cl h\<close> is the reading that still wants \<open>k\<close> bytes of the current word, has
  \<open>cl\<close> of it, and holds \<open>h\<close>. \<open>idle\<close> is the Receiver between two chunks in such
  a reading: nothing queued, no partial prefix. \<open>valid\<close> says that the bytes to come
  keep to one-byte prefixes of words that are not empty, complete only words that are
  \<open>line_ok\<close>, and hold no word that is the single null byte.
\<close>

datatype held = Held (h_tgs: "(jsstring \<times> callback_id) list") (h_pkt: "jsstring list")
  (h_rep: "jsstring option") (h_tag: "jsstring option")
  (h_dl: "(callback_id \<times> jsstring list) list")

definition idle :: "jsnum \<Rightarrow> jsstring \<Rightarrow> held \<Rightarrow> receiver" where
  "idle k cl h =
     \<lparr> tags = h_tgs h, dataLength = k, sentencePipe = [], processingSentencePipe = False,
       currentLine = cl, currentReply = h_rep h, currentTag = h_tag h, currentPacket = h_pkt h,
       lengthDescriptorSegment = None, delivered = h_dl h, fatalEmitted = 0 \<rparr>"


definition deliver :: "held \<Rightarrow> held" where
  "deliver h =
     (case map_of (h_tgs h) (the (h_tag h)) of
        Some cb \<Rightarrow> Held (h_tgs h) [] None None (h_dl h @ [(cb, h_pkt h)])
      | None \<Rightarrow> h)"

definition note_line :: "held \<Rightarrow> jsstring \<Rightarrow> held" where
  "note_line h l =
     (if is_tag_line l then Held (h_tgs h) (h_pkt h) (h_rep h) (Some (drop 5 l)) (h_dl h)
      else if is_reply_line l then
        (let h' = (if truthy (h_tag h) then deliver h else h)
         in Held (h_tgs h') (h_pkt h' @ [l]) (Some l) (h_tag h') (h_dl h'))
      else Held (h_tgs h) (h_pkt h @ [l]) (h_rep h) (h_tag h) (h_dl h))"


datatype astate = A nat jsstring held

fun astep :: "astate \<Rightarrow> byte \<Rightarrow> astate" where
  "astep (A 0 cl h) b = A (unat b) [] h"
| "astep (A (Suc k) cl h) b =
     (if k = 0 then A 0 [] (note_line h (cl @ [win1252 b])) else A k (cl @ [win1252 b]) h)"

definition arun :: "astate \<Rightarrow> buffer \<Rightarrow> astate" where
  "arun a d = foldl astep a d"










section \<open>Properties of the length codec\<close>

text \<open>The marker bits of the first byte, for every value the encoder can put there.\<close>

lemma marker1:
  "\<forall>h\<in>set [0..<128]. (of_nat h :: byte) AND 128 = 0 \<and> uint (of_nat h :: byte) = int h"
  by code_simp

lemma marker2:
  "\<forall>h\<in>set [0..<64]. (let b = (of_nat h :: byte) OR 0x80
      in b AND 128 \<noteq> 0 \<and> b AND 192 = 128 \<and> uint (b AND 63) = int h)"
  by code_simp

lemma marker3:
  "\<forall>h\<in>set [0..<32]. (let b = (of_nat h :: byte) OR 0xC0
      in b AND 128 \<noteq> 0 \<and> b AND 192 \<noteq> 128 \<and> b AND 224 = 192 \<and> uint (b AND 31) = int h)"
  by code_simp

lemma marker4:
  "\<forall>h\<in>set [0..<16]. (let b = (of_nat h :: byte) OR 0xE0
      in b AND 128 \<noteq> 0 \<and> b AND 192 \<noteq> 128 \<and> b AND 224 \<noteq> 192 \<and> b AND 240 = 224
         \<and> uint (b AND 15) = int h)"
  by code_simp

lemma shl8_small: "0 \<le> h \<Longrightarrow> h < 2 ^ 23 \<Longrightarrow> shl8 (Num h) = Num (h * 256)"
proof -
  assume a: "0 \<le> h" "h < 2 ^ 23"
  have 1: "signed_take_bit 31 h = h" using a by (intro signed_take_bit_int_eq_self) auto
  have 2: "signed_take_bit 31 (h * 256) = h * 256" using a by (intro signed_take_bit_int_eq_self) auto
  show ?thesis by (simp add: shl8_def 1 push_bit_eq_mult 2)
qed

lemma uint_byte_of_nat: "uint (of_nat n :: byte) = int (n mod 256)"
  by (simp add: unsigned_of_nat take_bit_eq_mod zmod_int)

lemma at_simps [simp]:
  "at (x # xs) 0 = Num (uint x)"
  "at (x # xs) (Suc n) = at xs n"
  "at [] n = NaN"
  by (simp_all add: at_def)

lemma at_numeral [simp]: "at (x # xs) (numeral k) = at xs (pred_numeral k)"
  by (simp add: at_def numeral_eq_Suc)

lemma at_one [simp]: "at (x # xs) 1 = at xs 0"
  by (simp add: at_def)

lemma decode_form1:
  assumes "L < 0x80"
  shows "decodeLength (of_nat L # rest) = (1, Num (int L))"
  using marker1 assms by (simp add: decodeLength_def)

lemma split2: "int L = int (L div 0x100) * 256 + int (L mod 0x100)"
proof -
  have "int (L div 0x100) * 256 + int (L mod 0x100) = int (L div 0x100 * 256 + L mod 0x100)"
    by (simp only: of_nat_add of_nat_mult of_nat_numeral)
  also have "\<dots> = int L" by (simp only: div_mult_mod_eq)
  finally show ?thesis by (rule sym)
qed

lemma split3:
  "int L = (int (L div 0x10000) * 256 + int (L div 0x100 mod 0x100)) * 256 + int (L mod 0x100)"
proof -
  have "L div 0x10000 = L div 0x100 div 0x100" by (simp add: div_mult2_eq[symmetric])
  then have "int (L div 0x100) = int (L div 0x10000) * 256 + int (L div 0x100 mod 0x100)"
    using split2[of "L div 0x100"] by simp
  then show ?thesis using split2[of L] by simp
qed

lemma split4:
  "int L = ((int (L div 0x1000000) * 256 + int (L div 0x10000 mod 0x100)) * 256
             + int (L div 0x100 mod 0x100)) * 256 + int (L mod 0x100)"
proof -
  have "L div 0x1000000 = L div 0x100 div 0x10000" "L div 0x10000 = L div 0x100 div 0x100"
    by (simp_all add: div_mult2_eq[symmetric])
  then have "int (L div 0x100) = (int (L div 0x1000000) * 256 + int (L div 0x10000 mod 0x100)) * 256
     + int (L div 0x100 mod 0x100)"
    using split3[of "L div 0x100"] by (simp add: div_mult2_eq[symmetric])
  then show ?thesis using split2[of L] by simp
qed

lemma decode_form2:
  assumes "L < 0x4000"
  shows "decodeLength ((of_nat (L div 0x100) OR 0x80) # of_nat L # rest) = (2, Num (int L))"
proof -
  define h where "h = L div 0x100"
  define l where "l = L mod 0x100"
  have h: "h < 64" using assms by (simp add: h_def)
  have L: "int L = int h * 256 + int l" unfolding h_def l_def by (rule split2)
  have m: "(of_nat h OR 0x80 :: byte) AND 128 \<noteq> 0" "(of_nat h OR 0x80 :: byte) AND 192 = 128"
    "uint ((of_nat h OR 0x80 :: byte) AND 63) = int h"
    using marker2 h by (simp_all add: Let_def)
  have s: "shl8 (Num (int h)) = Num (int h * 256)" using h by (intro shl8_small) auto
  show ?thesis
    unfolding h_def[symmetric] by (simp add: decodeLength_def m s uint_byte_of_nat L l_def)
qed

lemma decode_form3:
  assumes "L < 0x200000"
  shows "decodeLength ((of_nat (L div 0x10000) OR 0xC0) # of_nat (L div 0x100) # of_nat L # rest)
     = (3, Num (int L))"
proof -
  define h where "h = L div 0x10000"
  define m where "m = L div 0x100 mod 0x100"
  define l where "l = L mod 0x100"
  have h: "h < 32" using assms by (simp add: h_def)
  have ml: "m < 256" "l < 256" by (simp_all add: m_def l_def)
  have L: "int L = (int h * 256 + int m) * 256 + int l"
    unfolding h_def m_def l_def by (rule split3)
  have mk: "(of_nat h OR 0xC0 :: byte) AND 128 \<noteq> 0" "(of_nat h OR 0xC0 :: byte) AND 192 \<noteq> 128"
    "(of_nat h OR 0xC0 :: byte) AND 224 = 192"
    "uint ((of_nat h OR 0xC0 :: byte) AND 31) = int h"
    using marker3 h by (simp_all add: Let_def)
  have s1: "shl8 (Num (int h)) = Num (int h * 256)" using h by (intro shl8_small) auto
  have s2: "shl8 (Num (int h * 256 + int m)) = Num ((int h * 256 + int m) * 256)"
    using h ml by (intro shl8_small) auto
  show ?thesis
    unfolding h_def[symmetric]
    by (simp add: decodeLength_def mk s1 s2 uint_byte_of_nat L m_def[symmetric] l_def[symmetric])
qed

lemma decode_form4:
  assumes "L < 0x10000000"
  shows "decodeLength ((of_nat (L div 0x1000000) OR 0xE0) # of_nat (L div 0x10000)
            # of_nat (L div 0x100) # of_nat L # rest) = (4, Num (int L))"
proof -
  define h where "h = L div 0x1000000"
  define n where "n = L div 0x10000 mod 0x100"
  define m where "m = L div 0x100 mod 0x100"
  define l where "l = L mod 0x100"
  have h: "h < 16" using assms by (simp add: h_def)
  have ml: "n < 256" "m < 256" "l < 256" by (simp_all add: n_def m_def l_def)
  have L: "int L = ((int h * 256 + int n) * 256 + int m) * 256 + int l"
    unfolding h_def n_def m_def l_def by (rule split4)
  have mk: "(of_nat h OR 0xE0 :: byte) AND 128 \<noteq> 0" "(of_nat h OR 0xE0 :: byte) AND 192 \<noteq> 128"
    "(of_nat h OR 0xE0 :: byte) AND 224 \<noteq> 192" "(of_nat h OR 0xE0 :: byte) AND 240 = 224"
    "uint ((of_nat h OR 0xE0 :: byte) AND 15) = int h"
    using marker4 h by (simp_all add: Let_def)
  have s1: "shl8 (Num (int h)) = Num (int h * 256)" using h by (intro shl8_small) auto
  have s2: "shl8 (Num (int h * 256 + int n)) = Num ((int h * 256 + int n) * 256)"
    using h ml by (intro shl8_small) auto
  have s3: "shl8 (Num ((int h * 256 + int n) * 256 + int m))
      = Num (((int h * 256 + int n) * 256 + int m) * 256)"
    using h ml by (intro shl8_small) auto
  show ?thesis
    unfolding h_def[symmetric] using h ml
    by (simp add: decodeLength_def mk shl8_small uint_byte_of_nat L n_def[symmetric]
        m_def[symmetric] l_def[symmetric])
qed

lemma decode_form5:
  assumes "L < 0x80000000"
  shows "decodeLength (0xF0 # of_nat (L div 0x1000000) # of_nat (L div 0x10000)
            # of_nat (L div 0x100) # of_nat L # rest) = (5, Num (int L))"
proof -
  define h where "h = L div 0x1000000"
  define n where "n = L div 0x10000 mod 0x100"
  define m where "m = L div 0x100 mod 0x100"
  define l where "l = L mod 0x100"
  have h: "h < 128" using assms by (simp add: h_def)
  have ml: "n < 256" "m < 256" "l < 256" by (simp_all add: n_def m_def l_def)
  have L: "int L = ((int h * 256 + int n) * 256 + int m) * 256 + int l"
    unfolding h_def n_def m_def l_def by (rule split4)
  have s1: "shl8 (Num (int h)) = Num (int h * 256)" using h by (intro shl8_small) auto
  have s2: "shl8 (Num (int h * 256 + int n)) = Num ((int h * 256 + int n) * 256)"
    using h ml by (intro shl8_small) auto
  have s3: "shl8 (Num ((int h * 256 + int n) * 256 + int m))
      = Num (((int h * 256 + int n) * 256 + int m) * 256)"
    using h ml by (intro shl8_small) auto
  have hh: "h mod 256 = h" using h by simp
  show ?thesis
    unfolding h_def[symmetric] using h ml
    by (simp add: decodeLength_def shl8_small uint_byte_of_nat L n_def[symmetric]
        m_def[symmetric] l_def[symmetric] hh)
qed

lemma decode_encode_append:
  assumes "L < 2 ^ 31"
  shows "decodeLength (encode_length L @ rest) = (prefix_size L, Num (int L))"
  using assms decode_form1[of L rest] decode_form2[of L rest] decode_form3[of L rest]
    decode_form4[of L rest] decode_form5[of L rest]
  by (simp add: encode_length_def prefix_size_def)

text \<open>
  Below \<open>2^31\<close> the decoder inverts the encoder: decoding the shortest encoding of
  \<open>L\<close> gives the number of prefix bytes of that encoding and \<open>L\<close>.
\<close>

lemma decodeLength_encode_length:
  assumes "L < 2 ^ 31"
  shows "decodeLength (encode_length L) = (prefix_size L, Num (int L))"
  using decode_encode_append[OF assms, of "[]"] by simp

text \<open>The last shift of the five-byte form, when the first length byte is 128 or more.\<close>

lemma shl8_wrap:
  assumes "2 ^ 23 \<le> v" and "v < 2 ^ 24"
  shows "shl8 (Num v) = Num (v * 256 - 2 ^ 32)"
proof -
  define r where "r = v * 256 - 2 ^ 31"
  have r: "0 \<le> r" "r < 2 ^ 31" "v * 256 = 2 ^ 31 + r" using assms by (simp_all add: r_def)
  have a: "signed_take_bit 31 v = v"
    using assms by (intro signed_take_bit_int_eq_self) auto
  have t: "take_bit 32 (v * 256) = v * 256"
    using assms by (intro take_bit_int_eq_self) auto
  have "(2 ^ 31 + r) div 2 ^ 31 = r div 2 ^ 31 + 1" by (rule div_add_self1) simp
  also have "r div 2 ^ 31 = 0" using r by (intro div_pos_pos_trivial)
  finally have d: "v * 256 div 2 ^ 31 = 1" using r(3) by simp
  have b: "bit (v * 256) 31" by (simp only: bit_iff_odd d) simp
  have "signed_take_bit 31 (v * 256) = take_bit (Suc 31) (v * 256) - 2 ^ Suc 31 * of_bool (bit (v * 256) 31)"
    by (rule signed_take_bit_eq_take_bit_minus)
  also have "\<dots> = v * 256 - 2 ^ 32" using t b by simp
  finally show ?thesis by (simp add: shl8_def a push_bit_eq_mult)
qed

lemma decode_form5_wrap:
  assumes "0x80000000 \<le> L" and "L < 0x100000000"
  shows "decodeLength (0xF0 # of_nat (L div 0x1000000) # of_nat (L div 0x10000)
            # of_nat (L div 0x100) # of_nat L # rest) = (5, Num (int L - 4294967296))"
proof -
  define h where "h = L div 0x1000000"
  define n where "n = L div 0x10000 mod 0x100"
  define m where "m = L div 0x100 mod 0x100"
  define l where "l = L mod 0x100"
  have h: "128 \<le> h" "h < 256" using assms by (simp_all add: h_def)
  have ml: "n < 256" "m < 256" "l < 256" by (simp_all add: n_def m_def l_def)
  have L: "int L = ((int h * 256 + int n) * 256 + int m) * 256 + int l"
    unfolding h_def n_def m_def l_def by (rule split4)
  have s1: "shl8 (Num (int h)) = Num (int h * 256)" using h by (intro shl8_small) auto
  have s2: "shl8 (Num (int h * 256 + int n)) = Num ((int h * 256 + int n) * 256)"
    using h ml by (intro shl8_small) auto
  have s3: "shl8 (Num ((int h * 256 + int n) * 256 + int m))
      = Num (((int h * 256 + int n) * 256 + int m) * 256 - 2 ^ 32)"
    using h ml by (intro shl8_wrap) auto
  have hh: "h mod 256 = h" using h by simp
  show ?thesis
    unfolding h_def[symmetric] using h ml
    by (simp add: decodeLength_def shl8_small shl8_wrap uint_byte_of_nat L n_def[symmetric]
        m_def[symmetric] l_def[symmetric] hh)
qed

text \<open>
  C2: for every unsigned 32-bit integer \<open>L\<close>, decoding the encoding of \<open>L\<close> gives the
  prefix size and \<open>L\<close>. The five-byte form carries the 32 bits of \<open>L\<close> in its last
  four bytes, and \<open>decodeLength\<close> puts them together with \<open>len << 8\<close> (lines 292-295),
  a shift of signed 32-bit integers: for every \<open>L\<close> from \<open>2^31\<close> on, the last shift
  leaves the signed range and the length returned is \<open>L - 2^32\<close>, a negative number.
  \<open>2^31\<close> is encoded as \<open>F0 80 00 00 00\<close> and decoded as \<open>-2147483648\<close>.
\<close>

theorem C2_negative_length:
  assumes "2 ^ 31 \<le> L" and "L < 2 ^ 32"
  shows "decodeLength (encode_length L) = (prefix_size L, Num (int L - 2 ^ 32))
       \<and> prefix_size L = 5
       \<and> decodeLength (encode_length L) \<noteq> (prefix_size L, Num (int L))"
  using assms decode_form5_wrap[of L "[]"] by (simp add: encode_length_def prefix_size_def)

theorem C2_negative_length_witness:
  "(2 :: nat) ^ 31 \<le> 2147483648 \<and> (2147483648 :: nat) < 2 ^ 32
   \<and> encode_length 2147483648 = [0xF0, 0x80, 0x00, 0x00, 0x00]
   \<and> decodeLength [0xF0, 0x80, 0x00, 0x00, 0x00] = (5, Num (- 2147483648))
   \<and> decodeLength (encode_length 2147483648) \<noteq> (prefix_size 2147483648, Num 2147483648)"
proof -
  have e: "encode_length 2147483648 = [0xF0, 0x80, 0x00, 0x00, 0x00]"
    by (simp add: encode_length_def)
  show ?thesis using C2_negative_length[of 2147483648] by (simp add: e)
qed


section \<open>Properties of the Receiver\<close>

subsection \<open>The reference reading\<close>

lemma arun_simps [simp]: "arun a [] = a" "arun a (b # d) = arun (astep a b) d"
  by (simp_all add: arun_def)











subsection \<open>The branches of the loop between two chunks\<close>

lemma truthy_empty [simp]: "\<not> truthy (Some [])"
  by (simp add: truthy_def)

lemma idle_sel [simp]:
  "dataLength (idle k cl h) = k"
  "currentLine (idle k cl h) = cl"
  "currentPacket (idle k cl h) = h_pkt h"
  "currentReply (idle k cl h) = h_rep h"
  "currentTag (idle k cl h) = h_tag h"
  "tags (idle k cl h) = h_tgs h"
  "sentencePipe (idle k cl h) = []"
  "delivered (idle k cl h) = h_dl h"
  "lengthDescriptorSegment (idle k cl h) = None"
  "processingSentencePipe (idle k cl h) = False"
  "fatalEmitted (idle k cl h) = 0"
  by (simp_all add: idle_def)

lemma idle_upd [simp]:
  "(idle k cl h)\<lparr>dataLength := k'\<rparr> = idle k' cl h"
  "(idle k cl h)\<lparr>currentLine := cl'\<rparr> = idle k cl' h"
  by (simp_all add: idle_def)











subsection \<open>The loop over a chunk\<close>



subsection \<open>Chunks of a sentence\<close>


















subsection \<open>C1: segmentation\<close>




subsection \<open>C3: a partial length prefix\<close>

text \<open>
  What holds of the decoder: a buffer shorter than the prefix its first byte announces
  decodes to \<open>NaN\<close>, and \<open>decodeLength\<close> is a function of the buffer alone.
\<close>

lemma plus_NaN [simp]: "plus x NaN = NaN"
  by (cases x) simp_all

lemma at_beyond: "length data \<le> i \<Longrightarrow> at data i = NaN"
  by (simp add: at_def)

lemma decodeLength_insufficient:
  assumes "data \<noteq> []" and "length data < fst (decodeLength data)"
  shows "snd (decodeLength data) = NaN"
proof -
  obtain b rest where d: "data = b # rest" using assms(1) by (cases data) auto
  have "at data (fst (decodeLength data) - 1) = NaN"
    using assms(2) by (intro at_beyond) simp
  then show ?thesis
    using assms(2) unfolding d by (auto simp: decodeLength_def Let_def split: if_splits)
qed

text \<open>
  C3: a partial prefix is kept for the next chunk, both in the middle of a sentence and
  at the start of a new word. The code keeps it only in the first case (lines 149-151);
  the branch for a new word (lines 170-181) drops it. Scenario S2, a word of 300 bytes
  with the prefix \<open>0x81 0x2C\<close>, split after the first byte: the first chunk leaves no
  \<open>lengthDescriptorSegment\<close> and the length \<open>NaN\<close>, and the second chunk is read as a
  word of \<open>0x2C\<close> = 44 bytes. The same prefix split after a one-byte word is kept and
  the word of 300 bytes is read.
\<close>

theorem C3_partial_prefix_lost:
  "processRawData [0x81] Receiver = Inr (Receiver\<lparr>dataLength := NaN\<rparr>)
   \<and> (case feed Receiver [[0x81], 0x2C # replicate 300 0x61 @ [0]] of
        Inl e \<Rightarrow> False
      | Inr r \<Rightarrow> map length (currentPacket r) = [44, 97, 97] \<and> dataLength r = Num 37)
   \<and> (case feed Receiver [0x81 # 0x2C # replicate 300 0x61 @ [0]] of
        Inl e \<Rightarrow> False
      | Inr r \<Rightarrow> currentPacket r = [replicate 300 0x61] \<and> dataLength r = Num 0)
   \<and> (case processRawData [0x01, 0x61, 0x81] Receiver of
        Inl e \<Rightarrow> False
      | Inr r \<Rightarrow> lengthDescriptorSegment r = Some [0x81] \<and> dataLength r = NaN)
   \<and> (case feed Receiver [[0x01, 0x61, 0x81], 0x2C # replicate 300 0x61 @ [0]] of
        Inl e \<Rightarrow> False
      | Inr r \<Rightarrow> currentPacket r = [[0x61], replicate 300 0x61] \<and> dataLength r = Num 0)"
  by code_simp


subsection \<open>C6: a reply to a tag nobody reads\<close>

text \<open>
  C6: after a reply to an unknown tag the error is raised, the sentence is dropped and the
  connection stays usable. \<open>sendTagData\<close> throws before \<open>cleanUp\<close>, and the throw
  leaves \<open>processingSentencePipe\<close> set: the packet, tag and reply stay, and every later
  \<open>processSentence\<close> returns at once. With the tag \<open>1\<close> subscribed, the reply
  \<open>!done .tag=9\<close> throws \<open>UNREGISTEREDTAG\<close>; the reply \<open>!done .tag=1\<close> that follows is
  queued and never delivered, though a fresh Receiver delivers it.
\<close>

theorem C6_unknown_tag_wedges_receiver:
  "(case processRawData (encode_sentence [bytes ''!done'', bytes ''.tag=9''])
          (read (lit ''1'') 7 Receiver) of
      Inr r \<Rightarrow> False
    | Inl (e, r) \<Rightarrow>
        e = UNREGISTEREDTAG
        \<and> processingSentencePipe r
        \<and> currentPacket r = [lit ''!done''] \<and> currentTag r = Some (lit ''9'')
        \<and> currentReply r = Some (lit ''!done'')
        \<and> (case processRawData (encode_sentence [bytes ''!done'', bytes ''.tag=1'']) r of
              Inl e' \<Rightarrow> False
            | Inr r' \<Rightarrow>
                delivered r' = []
                \<and> sentencePipe r' = [(lit ''!done'', True), (lit ''.tag=1'', False)]
                \<and> processingSentencePipe r'))
   \<and> (case processRawData (encode_sentence [bytes ''!done'', bytes ''.tag=1''])
          (read (lit ''1'') 7 Receiver) of
        Inl e \<Rightarrow> False
      | Inr r \<Rightarrow> delivered r = [(7, [lit ''!done''])])"
  by code_simp


subsection \<open>C10: one subscriber for a tag\<close>

lemma count_update:
  "distinct (map fst al) \<Longrightarrow> length (filter (\<lambda>e. fst e = k) (AList.update k v al)) = 1"
proof (induction al)
  case Nil
  then show ?case by simp
next
  case (Cons p al)
  have "filter (\<lambda>e. fst e = k) al = []" if "fst p = k"
  proof -
    have "fst e \<noteq> k" if "e \<in> set al" for e
      using Cons.prems that \<open>fst p = k\<close> by (metis distinct.simps(2) image_eqI list.simps(9) set_map)
    then show ?thesis by (simp add: filter_empty_conv)
  qed
  then show ?case using Cons by (cases p) auto
qed

lemma distinct_run_tag_ops:
  "distinct (map fst (tags r)) \<Longrightarrow> distinct (map fst (tags (run_tag_ops ops r)))"
  unfolding run_tag_ops_def
proof (induction ops arbitrary: r)
  case Nil
  then show ?case by simp
next
  case (Cons a ops)
  have "distinct (map fst (tags (apply_tag_op a r)))"
    using Cons.prems by (cases a) (simp_all add: read_def stop_def distinct_update distinct_delete)
  then show ?case using Cons.IH by simp
qed

text \<open>
  C10: \<open>read\<close> on a tag that has a subscriber replaces the subscriber and raises
  nothing (\<open>read\<close> has no failing branch): after \<open>read t c1\<close> and \<open>read t c2\<close> the tag
  map holds \<open>c2\<close> for \<open>t\<close>, exactly as if \<open>read t c1\<close> had not been called. After every
  sequence of \<open>read\<close> and \<open>stop\<close> calls on a new Receiver no tag occurs twice in the
  map, and after the two calls \<open>t\<close> occurs exactly once.
\<close>

theorem C10_last_writer_wins:
  "map_of (tags (read t c2 (read t c1 r))) t = Some c2
   \<and> read t c2 (read t c1 r) = read t c2 r
   \<and> distinct (map fst (tags (run_tag_ops ops Receiver)))
   \<and> length (filter (\<lambda>e. fst e = t) (tags (read t c2 (read t c1 (run_tag_ops ops Receiver))))) = 1"
proof -
  have d: "distinct (map fst (tags (run_tag_ops ops Receiver)))"
    by (rule distinct_run_tag_ops) (simp add: Receiver_def)
  have "length (filter (\<lambda>e. fst e = t) (AList.update t c2 (tags (run_tag_ops ops Receiver)))) = 1"
    using d by (rule count_update)
  then show ?thesis using d by (simp add: read_def update_conv')
qed


section \<open>Properties of the Connector\<close>

text \<open>
  C4, as the specification states it: on a transport error the Connector unsubscribes
  every tag, delivering a synthetic \<open>!fatal\<close> to it, and becomes closed. A Connector
  with an \<open>error\<close> listener, connected, with the tag \<open>1\<close> subscribed: after \<open>onError\<close>
  the tag is still in the map, nothing was delivered to its subscriber and \<open>connected\<close>
  is still set; the socket is destroyed.
\<close>

theorem C4_counterexample:
  "(case and_then (and_then (and_then
              (connect (Connector \<lparr>opt_host = lit ''router'', opt_timeout = Some 10,
                                   opt_port = Some 8728, opt_tls = TlsUndefined\<rparr>))
              (\<lambda>c. onConnect (on (lit ''error'') c)))
            (Connector_read (lit ''1'') 7))
          (onError (lit ''ECONNRESET'')) of
      Inl e \<Rightarrow> False
    | Inr c \<Rightarrow>
        map_option tags (receiver c) = Some [(lit ''1'', 7)]
        \<and> map_option delivered (receiver c) = Some []
        \<and> connected c
        \<and> map_option destroyed (socket c) = Some True)"
  by (simp add: and_then_def onConnect_def on_def connect_def Connector_def Connector_read_def
      onError_def emit_def destroy_def read_def Receiver_def truthy_num_def lit_def
      valid_port_def valid_timeout_def timeout_ms_def Let_def)

text \<open>
  C4, amended: on a timeout, and on a transport error when somebody listens for
  \<open>error\<close>, a Connector that has a socket emits \<open>timeout\<close> with \<open>SOCKTMOUT\<close>, or
  \<open>error\<close> with the socket's \<open>errno\<close>, destroys the socket and removes all its
  listeners. It does nothing else: the Receiver with its tag map and the flags
  \<open>connected\<close>, \<open>connecting\<close> and \<open>closing\<close> are as before. On a transport error
  when nobody listens for \<open>error\<close>, the emission throws the error and nothing is
  changed: the socket is not destroyed.
\<close>

theorem C4_transport_error:
  assumes "socket c = Some sock"
  shows "onError errno c =
           (if lit ''error'' \<in> set (listening c)
            then Inr (c\<lparr>emitted := emitted c @ [Error (Errno errno)],
                        socket := Some (sock\<lparr>destroyed := True\<rparr>), listening := []\<rparr>)
            else Inl (Errno errno, c))
       \<and> onTimeout c =
           Inr (c\<lparr>emitted := emitted c @ [Timeout SOCKTMOUT],
                  socket := Some (sock\<lparr>destroyed := True\<rparr>), listening := []\<rparr>)
       \<and> (\<forall>c'. onError errno c = Inr c' \<or> onTimeout c = Inr c' \<longrightarrow>
              receiver c' = receiver c \<and> connected c' = connected c
              \<and> connecting c' = connecting c \<and> closing c' = closing c)"
  using assms by (auto simp: onError_def onTimeout_def emit_def destroy_def)

theorem C4_transport_error_witness:
  "(case connect (Connector \<lparr>opt_host = lit ''router'', opt_timeout = Some 10,
                             opt_port = Some 8728, opt_tls = TlsUndefined\<rparr>) of
      Inl e \<Rightarrow> False
    | Inr c \<Rightarrow>
        socket c \<noteq> None \<and> listening c = []
        \<and> (case onError (lit ''ECONNRESET'') (on (lit ''error'') c) of
              Inl e \<Rightarrow> False
            | Inr c' \<Rightarrow>
                emitted c' = [Error (Errno (lit ''ECONNRESET''))] \<and> listening c' = []
                \<and> map_option destroyed (socket c') = Some True \<and> receiver c' = receiver c)
        \<and> onError (lit ''ECONNRESET'') c = Inl (Errno (lit ''ECONNRESET''), c)
        \<and> (case onTimeout c of
              Inl e \<Rightarrow> False
            | Inr c' \<Rightarrow>
                emitted c' = [Timeout SOCKTMOUT] \<and> listening c' = []
                \<and> map_option destroyed (socket c') = Some True \<and> receiver c' = receiver c))"
proof -
  define sock where "sock = \<lparr>remote_port = Some 8728, remote_host = lit ''router'',
    secure = False, idle_timeout = Num 10000, keepAlive = True, ended = False,
    destroyed = False\<rparr>"
  define c where "c = \<lparr>host = lit ''router'', port = Some 8728, timeout = Some 10,
    tls = TlsUndefined, connected = False, connecting = True, closing = False,
    socket = Some sock, receiver = Some Receiver, pool_run = False, emitted = [],
    listening = []\<rparr>"
  have k: "connect (Connector \<lparr>opt_host = lit ''router'', opt_timeout = Some 10,
                             opt_port = Some 8728, opt_tls = TlsUndefined\<rparr>) = Inr c"
    by (simp add: connect_def Connector_def truthy_num_def valid_port_def valid_timeout_def
        timeout_ms_def Let_def c_def sock_def)
  have h1: "socket c = Some sock" and h2: "socket (on (lit ''error'') c) = Some sock"
    and l1: "lit ''error'' \<in> set (listening (on (lit ''error'') c))"
    and l2: "lit ''error'' \<notin> set (listening c)"
    and e: "emitted c = []" "emitted (on (lit ''error'') c) = []"
    and r: "receiver (on (lit ''error'') c) = receiver c"
    by (simp_all add: c_def on_def)
  have t1: "onError (lit ''ECONNRESET'') (on (lit ''error'') c) =
           Inr ((on (lit ''error'') c)\<lparr>emitted := emitted (on (lit ''error'') c)
                       @ [Error (Errno (lit ''ECONNRESET''))],
                  socket := Some (sock\<lparr>destroyed := True\<rparr>), listening := []\<rparr>)"
    using C4_transport_error[OF h2, of "lit ''ECONNRESET''"] l1 by (simp only: if_True)
  have t2: "onError (lit ''ECONNRESET'') c = Inl (Errno (lit ''ECONNRESET''), c)"
    using C4_transport_error[OF h1, of "lit ''ECONNRESET''"] l2 by (simp only: if_False)
  have t3: "onTimeout c =
           Inr (c\<lparr>emitted := emitted c @ [Timeout SOCKTMOUT],
                  socket := Some (sock\<lparr>destroyed := True\<rparr>), listening := []\<rparr>)"
    using C4_transport_error[OF h1, of "lit ''ECONNRESET''"] by (simp only:)
  have "socket c \<noteq> None \<and> listening c = []
        \<and> (case onError (lit ''ECONNRESET'') (on (lit ''error'') c) of
              Inl e \<Rightarrow> False
            | Inr c' \<Rightarrow>
                emitted c' = [Error (Errno (lit ''ECONNRESET''))] \<and> listening c' = []
                \<and> map_option destroyed (socket c') = Some True \<and> receiver c' = receiver c)
        \<and> onError (lit ''ECONNRESET'') c = Inl (Errno (lit ''ECONNRESET''), c)
        \<and> (case onTimeout c of
              Inl e \<Rightarrow> False
            | Inr c' \<Rightarrow>
                emitted c' = [Timeout SOCKTMOUT] \<and> listening c' = []
                \<and> map_option destroyed (socket c') = Some True \<and> receiver c' = receiver c)"
    unfolding t1 t2 t3 using h1 e r by (simp add: c_def)
  then show ?thesis unfolding k by simp
qed

text \<open>
  C9, as the specification states it: without a port and without TLS the Connector
  connects to port 8728. The Connector leaves \<open>this.port\<close> unset and hands
  \<open>undefined\<close> to \<open>socket.connect\<close>, which throws: no connection is asked for, and
  nothing in the Connector knows the number 8728.
\<close>

theorem C9_counterexample:
  "port (Connector \<lparr>opt_host = lit ''router'', opt_timeout = Some 10, opt_port = None,
                    opt_tls = TlsUndefined\<rparr>) = None
   \<and> (case connect (Connector \<lparr>opt_host = lit ''router'', opt_timeout = Some 10,
                                opt_port = None, opt_tls = TlsUndefined\<rparr>) of
        Inl (e, c) \<Rightarrow> e = ERR_MISSING_ARGS \<and> map_option remote_port (socket c) = Some None
      | Inr c \<Rightarrow> False)"
  by (simp add: Connector_def connect_def truthy_num_def valid_timeout_def timeout_ms_def
      Let_def)

text \<open>
  C9, amended. The constructor sets \<open>this.port\<close> to the port of the configuration when
  one is supplied (other than 0), with or without TLS; without one, to 8729 when
  \<open>tls\<close> is \<open>true\<close> or an object (or \<open>null\<close>), and leaves it unset otherwise.
  \<open>connect\<close> returns exactly when the configuration supplies a timeout of more
  than 0 seconds and \<open>this.port\<close> is a port from 0 to 65535, and then the socket has
  been asked to connect to \<open>this.port\<close>, through TLS exactly when \<open>tls\<close> is
  \<open>true\<close> or an object. In every other case \<open>connect\<close> throws. Without TLS it
  throws before the socket is asked for any connection: at \<open>setTimeout\<close> when there
  is no such timeout, else at \<open>socket.connect\<close>, which is handed \<open>undefined\<close> when
  \<open>this.port\<close> is unset. With TLS it throws at \<open>tls.connect\<close> when the port is
  out of range, and else at \<open>setTimeout\<close>, after \<open>tls.connect\<close> has been asked for
  \<open>this.port\<close>. Neither the default 8728 nor a default timeout is applied by the
  Connector.
\<close>

theorem C9_ports:
  "port (Connector options) =
     (if truthy_num (opt_port options) then opt_port options
      else if opt_tls options = TlsBoolean True \<or> typeof_object (opt_tls options) then Some 8729
      else None)
   \<and> (case connect (Connector options) of
         Inr c \<Rightarrow>
           (\<exists>n. opt_timeout options = Some n \<and> 0 < n)
           \<and> (\<exists>p. port (Connector options) = Some p \<and> valid_port p)
           \<and> map_option remote_port (socket c) = Some (port (Connector options))
           \<and> map_option secure (socket c)
               = Some (opt_tls options = TlsBoolean True \<or> (\<exists>obj. opt_tls options = TlsObject obj))
       | Inl (e, c) \<Rightarrow>
           if opt_tls options = TlsBoolean True \<or> (\<exists>obj. opt_tls options = TlsObject obj) then
             if \<exists>p. port (Connector options) = Some p \<and> valid_port p
             then e = ERR_OUT_OF_RANGE \<and> \<not> (\<exists>n. opt_timeout options = Some n \<and> 0 < n)
                  \<and> map_option remote_port (socket c) = Some (port (Connector options))
             else e = ERR_SOCKET_BAD_PORT \<and> port (Connector options) \<noteq> None \<and> socket c = None
           else
             map_option remote_port (socket c) = Some None
             \<and> (if \<not> (\<exists>n. opt_timeout options = Some n \<and> 0 < n) then e = ERR_OUT_OF_RANGE
                  else if port (Connector options) = None then e = ERR_MISSING_ARGS
                  else e = ERR_SOCKET_BAD_PORT
                       \<and> \<not> (\<exists>p. port (Connector options) = Some p \<and> valid_port p)))"
  by (cases "opt_tls options" rule: typeof_object.cases; cases "opt_port options";
      cases "opt_timeout options")
     (auto simp: Connector_def connect_def Let_def truthy_num_def valid_timeout_def
        timeout_ms_def split: bool.splits)

theorem C9_ports_witness:
  "port (Connector \<lparr>opt_host = lit ''router'', opt_timeout = Some 10, opt_port = Some 8291,
                    opt_tls = TlsBoolean True\<rparr>) = Some 8291
   \<and> (case connect (Connector \<lparr>opt_host = lit ''router'', opt_timeout = Some 10,
                                opt_port = Some 8291, opt_tls = TlsBoolean True\<rparr>) of
        Inr c \<Rightarrow> map_option remote_port (socket c) = Some (Some 8291)
               \<and> map_option secure (socket c) = Some True
      | Inl e \<Rightarrow> False)
   \<and> port (Connector \<lparr>opt_host = lit ''router'', opt_timeout = Some 10, opt_port = None,
                      opt_tls = TlsBoolean True\<rparr>) = Some 8729
   \<and> port (Connector \<lparr>opt_host = lit ''router'', opt_timeout = None, opt_port = None,
                      opt_tls = TlsBoolean False\<rparr>) = None
   \<and> (case connect (Connector \<lparr>opt_host = lit ''router'', opt_timeout = None,
                                opt_port = None, opt_tls = TlsBoolean False\<rparr>) of
        Inr c \<Rightarrow> False
      | Inl (e, c) \<Rightarrow> e = ERR_OUT_OF_RANGE \<and> map_option remote_port (socket c) = Some None)"
proof -
  define o1 where "o1 = \<lparr>opt_host = lit ''router'', opt_timeout = Some 10,
                         opt_port = Some 8291, opt_tls = TlsBoolean True\<rparr>"
  define o2 where "o2 = \<lparr>opt_host = lit ''router'', opt_timeout = Some 10,
                         opt_port = None, opt_tls = TlsBoolean True\<rparr>"
  define o3 where "o3 = \<lparr>opt_host = lit ''router'', opt_timeout = None,
                         opt_port = None, opt_tls = TlsBoolean False\<rparr>"
  have a: "truthy_num (opt_port o1)" "\<not> truthy_num (opt_port o2)" "\<not> truthy_num (opt_port o3)"
    "opt_tls o2 = TlsBoolean True" "opt_tls o1 = TlsBoolean True"
    "opt_tls o3 \<noteq> TlsBoolean True" "\<not> typeof_object (opt_tls o3)" "opt_port o1 = Some 8291"
    "opt_timeout o3 = None"
    by (simp_all add: o1_def o2_def o3_def truthy_num_def)
  have t3: "\<not> (opt_tls o3 = TlsBoolean True \<or> (\<exists>obj. opt_tls o3 = TlsObject obj))"
    by (simp add: o3_def)
  have p1: "port (Connector o1) = Some 8291" using C9_ports[of o1] a by simp
  have p2: "port (Connector o2) = Some 8729" using C9_ports[of o2] a by simp
  have p3: "port (Connector o3) = None" using C9_ports[of o3] a by simp
  have k1: "\<exists>c. connect (Connector o1) = Inr c"
    by (simp add: connect_def Connector_def truthy_num_def valid_port_def valid_timeout_def
        timeout_ms_def Let_def o1_def)
  have k3: "connect (Connector o3)
      = Inl (ERR_OUT_OF_RANGE, snd (case connect (Connector o3) of Inl x \<Rightarrow> x))"
    by (simp add: connect_def Connector_def truthy_num_def valid_timeout_def
        timeout_ms_def Let_def o3_def)
  have c1: "case connect (Connector o1) of
        Inr c \<Rightarrow> map_option remote_port (socket c) = Some (Some 8291)
               \<and> map_option secure (socket c) = Some True
      | Inl e \<Rightarrow> False"
    using C9_ports[of o1] k1 p1 a(5) by (auto split: sum.splits)
  have c3: "case connect (Connector o3) of
        Inr c \<Rightarrow> False
      | Inl (e, c) \<Rightarrow> e = ERR_OUT_OF_RANGE \<and> map_option remote_port (socket c) = Some None"
    using C9_ports[of o3] k3 p3 t3 by (auto split: sum.splits prod.splits)
  show ?thesis using p1 p2 p3 c1 c3 unfolding o1_def o2_def o3_def by (intro conjI)
qed

section \<open>Properties of the RStream\<close>

lemmas rstream_defs = RStream_def RStream_stop_def stop_then_def pause_def pause_then_def
  resume_def start_def onTrap_def onDone_def onStream_def sendData_def section_of_def
  section_timeout_def debounce_run_def debounce_cancel_def debounce_timeout_def
  prepareDebounceEmptyData_def channel_close_def channel_stream_def effect_def truthy_def
  RStream_close_def RStream_data_def

text \<open>
  C5: a stream that has stopped calls back no more, whatever timers are pending.
  \<open>stop\<close> cancels the debounce timer and leaves the 300 ms timer of \<open>onStream\<close>
  pending, and neither \<open>sendData\<close> nor \<open>onStream\<close> looks at \<open>stopped\<close>. A stream
  with a callback receives one packet with a \<open>.section\<close>; \<open>stop()\<close> is called and its
  \<open>/cancel\<close> write resolves, so the stream is stopped; then the timer fires and the
  callback is called with the packet. A packet that reaches \<open>onStream\<close> after the stop
  is emitted as \<open>data\<close> and passed to the callback as well.
\<close>

theorem C5_stopped_stream_calls_back:
  "(let p = [(lit ''.section'', lit ''0''), (lit ''name'', lit ''ether1'')];
        s1 = channel_stream p (RStream (Some (lit ''a'')) [lit ''/tool/torch''] (Some 1));
        s2 = fst (RStream_stop False s1);
        s3 = stop_then s2;
        s4 = section_timeout s3
    in snd (RStream_stop False s1) = Pending
       \<and> stopped s3 \<and> stopped s4
       \<and> effects s3 = [Emit_data p, Cancel_write [lit ''/cancel'', lit ''=tag=a''], Emit_stopped]
       \<and> effects s4 = effects s3 @ [Callback_section 1 [p]]
       \<and> effects (onStream [] s3) = effects s3 @ [Emit_data [], Callback_packet 1 []])"
  by (simp add: rstream_defs lit_def Let_def)


text \<open>
  C7, as the specification states it: for every trap whose message is not
  \<open>interrupted\<close> the consumer's callback is called once with the error. A stream made
  without a callback has none to call: it emits \<open>error\<close> with the trap instead.
\<close>

theorem C7_counterexample:
  "onTrap [(lit ''message'', lit ''no such command'')]
      ((RStream (Some (lit ''a'')) [lit ''/bad''] None)\<lparr>error_listener := True\<rparr>)
   = Inr ((RStream (Some (lit ''a'')) [lit ''/bad''] None)
          \<lparr>stopped := True, trapped := True, error_listener := True,
           effects := [Emit_error [(lit ''message'', lit ''no such command'')],
                       Emit_trap [(lit ''message'', lit ''no such command'')]]\<rparr>)"
  by (simp add: rstream_defs lit_def)


text \<open>
  C7, amended: a trap whose message is \<open>interrupted\<close> clears \<open>streaming\<close> and does
  nothing else: no callback, no event, \<open>stopped\<close> and \<open>trapped\<close> as they were. Any
  other trap sets \<open>stopped\<close> and \<open>trapped\<close> and emits \<open>trap\<close>; before that, a
  stream with a callback calls it exactly once, with an error carrying the trap's message
  (the empty message when the trap has none), and a stream without a callback emits
  \<open>error\<close> with the trap, which throws when nobody listens for it.
\<close>

theorem C7_trap:
  "(map_of trap (lit ''message'') = Some (lit ''interrupted'') \<longrightarrow>
      onTrap trap s = Inr (s\<lparr>streaming := False\<rparr>))
   \<and> (map_of trap (lit ''message'') \<noteq> Some (lit ''interrupted'') \<and> callback s = Some cb \<longrightarrow>
      onTrap trap s =
        Inr (s\<lparr>stopped := True, trapped := True,
               effects := effects s
                 @ [Callback_error cb (case map_of trap (lit ''message'') of
                                         None \<Rightarrow> [] | Some m \<Rightarrow> m),
                    Emit_trap trap]\<rparr>))
   \<and> (map_of trap (lit ''message'') \<noteq> Some (lit ''interrupted'') \<and> callback s = None \<longrightarrow>
      onTrap trap s =
        (if error_listener s
         then Inr (s\<lparr>stopped := True, trapped := True,
                     effects := effects s @ [Emit_error trap, Emit_trap trap]\<rparr>)
         else Inl (UnhandledError, s\<lparr>stopped := True, trapped := True\<rparr>)))"
  by (auto simp: onTrap_def effect_def)

theorem C7_trap_witness:
  "onTrap [(lit ''message'', lit ''interrupted'')] (RStream (Some (lit ''a'')) [] (Some 1))
     = Inr ((RStream (Some (lit ''a'')) [] (Some 1))\<lparr>streaming := False\<rparr>)
   \<and> onTrap [(lit ''message'', lit ''no such command'')] (RStream (Some (lit ''a'')) [] (Some 1))
     = Inr ((RStream (Some (lit ''a'')) [] (Some 1))
            \<lparr>stopped := True, trapped := True,
             effects := [Callback_error 1 (lit ''no such command''),
                         Emit_trap [(lit ''message'', lit ''no such command'')]]\<rparr>)
   \<and> onTrap [(lit ''message'', lit ''no such command'')] (RStream (Some (lit ''a'')) [] None)
     = Inl (UnhandledError,
            (RStream (Some (lit ''a'')) [] None)\<lparr>stopped := True, trapped := True\<rparr>)"
proof -
  have m1: "map_of [(lit ''message'', lit ''interrupted'')] (lit ''message'')
              = Some (lit ''interrupted'')" by simp
  have m2: "map_of [(lit ''message'', lit ''no such command'')] (lit ''message'')
              \<noteq> Some (lit ''interrupted'')" by (simp add: lit_def)
  have c1: "callback (RStream (Some (lit ''a'')) [] (Some 1)) = Some 1"
    and c2: "callback (RStream (Some (lit ''a'')) [] None) = None"
    and l: "\<not> error_listener (RStream (Some (lit ''a'')) [] None)"
    and e1: "effects (RStream (Some (lit ''a'')) [] (Some 1)) = []"
    by (simp_all add: RStream_def)
  show ?thesis
    using C7_trap[of "[(lit ''message'', lit ''interrupted'')]"
                     "RStream (Some (lit ''a'')) [] (Some 1)" 1]
          C7_trap[of "[(lit ''message'', lit ''no such command'')]"
                     "RStream (Some (lit ''a'')) [] (Some 1)" 1]
          C7_trap[of "[(lit ''message'', lit ''no such command'')]"
                     "RStream (Some (lit ''a'')) [] None" 1]
          m1 m2 c1 c2 l e1
    by simp
qed

text \<open>
  What holds of \<open>stop\<close> and \<open>pause\<close>: as long as the flag \<open>stopped\<close> or the flag
  \<open>stopping\<close> is set, \<open>stop()\<close> (with either argument, and \<open>close()\<close>) changes nothing,
  writes no \<open>/cancel\<close> and returns a resolved promise; \<open>pause()\<close> changes nothing and
  writes no \<open>/cancel\<close> either, and the promise it returns is rejected with
  \<open>STREAMCLOSD\<close>.
\<close>

lemma stop_while_flag_set:
  assumes "stopped s \<or> stopping s"
  shows "RStream_stop pausing_arg s = (s, Resolved) \<and> RStream_close s = (s, Resolved)
         \<and> pause s = (s, Rejected STREAMCLOSD)"
  using assms by (auto simp: RStream_stop_def RStream_close_def pause_def)

text \<open>
  C8: on a stream that has stopped, \<open>stop()\<close> and \<open>pause()\<close> are idempotent: no state
  change, no further \<open>/cancel\<close> write. The flag \<open>stopped\<close> does not last: the listener
  that \<open>start\<close> binds to the channel's \<open>close\<close> event sets it back to \<open>false\<close>
  (line 378). A stream is started and stopped: \<open>stop()\<close> writes \<open>/cancel\<close>, the write
  resolves and \<open>stopped\<close> is set; the channel's \<open>done\<close> makes \<open>onDone\<close> close the
  channel, and the channel's \<open>close\<close> event clears \<open>stopped\<close>. A second \<open>stop()\<close>
  then sets \<open>stopping\<close>, writes a second \<open>/cancel\<close> and returns a pending promise.
\<close>

theorem C8_second_stop_cancels_again:
  "(case start (RStream (Some (lit ''a'')) [lit ''/ip/address/listen''] (Some 1)) of
      Inl e \<Rightarrow> False
    | Inr s1 \<Rightarrow>
        (let s2 = fst (RStream_stop False s1);
             s3 = stop_then s2;
             s4 = onDone s3;
             s5 = channel_close s4;
             s6 = fst (RStream_stop False s5)
         in snd (RStream_stop False s1) = Pending
            \<and> stopped s3 \<and> \<not> stopping s3
            \<and> RStream_stop False s3 = (s3, Resolved)
            \<and> effects s4 = [Channel_listen, Channel_write [lit ''/ip/address/listen''],
                             Emit_started, Cancel_write [lit ''/cancel'', lit ''=tag=a''],
                             Emit_stopped, Channel_close]
            \<and> \<not> stopped s5 \<and> \<not> stopping s5
            \<and> effects s5 = effects s4 @ [Emit_done, Emit_close]
            \<and> snd (RStream_stop False s5) = Pending
            \<and> stopping s6
            \<and> effects s6 = effects s5 @ [Cancel_write [lit ''/cancel'', lit ''=tag=a'']]))"
  by (simp add: rstream_defs lit_def Let_def)


end
